theory Spec2Isabelle
  imports Complex_Main
begin

section \<open>cmod\_functions/plasma\_parameters.py\<close>

text \<open>
  A shallow embedding of the module \<^verbatim>\<open>plasma_parameters.py\<close>: four accessors that
  fetch one signal and its time axis from an MDSplus server, and three numeric functions
  over arrays and scalars already in memory.

  Conventions of the embedding.
  \<^item> A one-dimensional numpy array of floats is a \<open>real list\<close>. The scalar arguments
    of \<open>greenwald_density_limit\<close> and \<open>greenwald_fraction\<close> are Python floats, as in
    the calls \<^verbatim>\<open>greenwald_fraction(0.5, 1.0)\<close>, and a Python float is a \<open>real\<close>. The
    numpy scalar that \<^verbatim>\<open>.mean()\<close> returns has a type of its own, \<open>float64\<close>, with
    not-a-number as a value. Rounding and overflow are not modelled: arithmetic is exact.
  \<^item> Every exception the code can raise is a value \<open>Inl e\<close> of a sum type; a normal
    return is \<open>Inr v\<close>.
  \<^item> A global name is looked up in the module's namespace when the function body runs,
    as Python does; the namespace is a parameter of every function that reads a global,
    and \<open>module_globals\<close> is the namespace the module itself builds.
  \<^item> The MDSplus server is a parameter: a record of the answers it gives.
\<close>

subsection \<open>Exceptions and the module namespace\<close>

datatype py_error =
    NameError
  | AttributeError
  | TypeError
  | IndexError
  | ValueError
  | ZeroDivisionError
  | MDSplusException

datatype pyobj = Module string | Function string

type_synonym globals = "string \<rightharpoonup> pyobj"

text \<open>
  What the module binds at import time: line 1, \<^verbatim>\<open>import MDSplus as mds\<close>, and the seven
  \<^verbatim>\<open>def\<close> statements. There is no other import and no other assignment at module level.
\<close>

definition module_globals :: globals where
  "module_globals = map_of
     [(''mds'', Module ''MDSplus''),
      (''get_line_integrated_density'', Function ''get_line_integrated_density''),
      (''get_line_averaged_density'', Function ''get_line_averaged_density''),
      (''get_plasma_current'', Function ''get_plasma_current''),
      (''get_toroidal_magnetic_field'', Function ''get_toroidal_magnetic_field''),
      (''average_plasma_parameter'', Function ''average_plasma_parameter''),
      (''greenwald_density_limit'', Function ''greenwald_density_limit''),
      (''greenwald_fraction'', Function ''greenwald_fraction'')]"

text \<open>
  The namespace the functions were written for: the module's own bindings and
  \<^verbatim>\<open>import numpy as np\<close>.
\<close>

definition globals_with_numpy :: globals where
  "globals_with_numpy = module_globals(''np'' \<mapsto> Module ''numpy'')"

text \<open>Reading a global name: an unbound name raises \<open>NameError\<close>.\<close>

definition lookup_name :: "globals \<Rightarrow> string \<Rightarrow> py_error + pyobj" where
  "lookup_name g n = (case g n of None \<Rightarrow> Inl NameError | Some v \<Rightarrow> Inr v)"

subsection \<open>The numpy operations the module uses\<close>

text \<open>
  \<^verbatim>\<open>np.pi\<close>, \<^verbatim>\<open>np.amin\<close> and \<^verbatim>\<open>np.amax\<close> first read the global \<^verbatim>\<open>np\<close>, then an attribute
  of the object found there. On the numpy module the attributes exist; the minimum and
  the maximum of an empty array raise \<open>ValueError\<close>.
\<close>

definition np_pi :: "globals \<Rightarrow> py_error + real" where
  "np_pi g =
     (case lookup_name g ''np'' of
        Inl e \<Rightarrow> Inl e
      | Inr m \<Rightarrow> if m = Module ''numpy'' then Inr pi else Inl AttributeError)"

definition np_amin :: "globals \<Rightarrow> real list \<Rightarrow> py_error + real" where
  "np_amin g xs =
     (case lookup_name g ''np'' of
        Inl e \<Rightarrow> Inl e
      | Inr m \<Rightarrow>
          if m = Module ''numpy''
          then (if xs = [] then Inl ValueError else Inr (Min (set xs)))
          else Inl AttributeError)"

definition np_amax :: "globals \<Rightarrow> real list \<Rightarrow> py_error + real" where
  "np_amax g xs =
     (case lookup_name g ''np'' of
        Inl e \<Rightarrow> Inl e
      | Inr m \<Rightarrow>
          if m = Module ''numpy''
          then (if xs = [] then Inl ValueError else Inr (Max (set xs)))
          else Inl AttributeError)"

text \<open>
  A window bound is a float or Python's \<^verbatim>\<open>None\<close>. The array comparisons
  \<^verbatim>\<open>variable_time < b\<close> and \<^verbatim>\<open>variable_time > b\<close> compare every sample with the bound;
  a float against \<^verbatim>\<open>None\<close> has no ordering and raises \<open>TypeError\<close>.
\<close>

fun py_lt :: "real \<Rightarrow> real option \<Rightarrow> py_error + bool" where
  "py_lt x None = Inl TypeError"
| "py_lt x (Some b) = Inr (x < b)"

fun py_gt :: "real \<Rightarrow> real option \<Rightarrow> py_error + bool" where
  "py_gt x None = Inl TypeError"
| "py_gt x (Some b) = Inr (x > b)"

fun np_less :: "real list \<Rightarrow> real option \<Rightarrow> py_error + bool list" where
  "np_less [] b = Inr []"
| "np_less (x # xs) b =
     (case py_lt x b of
        Inl e \<Rightarrow> Inl e
      | Inr v \<Rightarrow> (case np_less xs b of Inl e \<Rightarrow> Inl e | Inr vs \<Rightarrow> Inr (v # vs)))"

fun np_greater :: "real list \<Rightarrow> real option \<Rightarrow> py_error + bool list" where
  "np_greater [] b = Inr []"
| "np_greater (x # xs) b =
     (case py_gt x b of
        Inl e \<Rightarrow> Inl e
      | Inr v \<Rightarrow> (case np_greater xs b of Inl e \<Rightarrow> Inl e | Inr vs \<Rightarrow> Inr (v # vs)))"

text \<open>\<^verbatim>\<open>a & b\<close> on two boolean arrays of one length: the element-wise conjunction.\<close>

definition np_and :: "bool list \<Rightarrow> bool list \<Rightarrow> bool list" where
  "np_and a b = map (\<lambda>(p, q). p \<and> q) (zip a b)"

text \<open>
  \<^verbatim>\<open>data[mask]\<close> with a boolean mask keeps the samples whose mask entry is true, in
  order. numpy accepts an empty mask on any array and selects nothing; any other mask
  whose length is not the array's raises \<open>IndexError\<close>.
\<close>

definition np_index :: "real list \<Rightarrow> bool list \<Rightarrow> py_error + real list" where
  "np_index xs msk =
     (if msk = [] then Inr []
      else if length msk \<noteq> length xs then Inl IndexError
      else Inr (map fst (filter snd (zip xs msk))))"

text \<open>
  \<^verbatim>\<open>.mean()\<close> returns a numpy float: the arithmetic mean, and not-a-number for an empty
  array (numpy warns and returns, it does not raise).
\<close>

datatype float64 = Finite real | NaN

definition np_mean :: "real list \<Rightarrow> float64" where
  "np_mean xs = (if xs = [] then NaN else Finite (sum_list xs / real (length xs)))"

subsection \<open>average\_plasma\_parameter (lines 104--131)\<close>

text \<open>Line 127: the mask of the samples strictly inside the window.\<close>

definition time_interval ::
  "real list \<Rightarrow> real option \<Rightarrow> real option \<Rightarrow> py_error + bool list" where
  "time_interval variable_time time_start time_end =
     (case np_less variable_time time_end of
        Inl e \<Rightarrow> Inl e
      | Inr lt \<Rightarrow>
          (case np_greater variable_time time_start of
             Inl e \<Rightarrow> Inl e
           | Inr gt \<Rightarrow> Inr (np_and lt gt)))"

text \<open>Lines 127--131: the mean over the window whose bounds are given.\<close>

definition variable_mean ::
  "real list \<Rightarrow> real list \<Rightarrow> real option \<Rightarrow> real option \<Rightarrow> py_error + float64" where
  "variable_mean variable_data variable_time time_start time_end =
     (case time_interval variable_time time_start time_end of
        Inl e \<Rightarrow> Inl e
      | Inr msk \<Rightarrow>
          (case np_index variable_data msk of
             Inl e \<Rightarrow> Inl e
           | Inr variable_range \<Rightarrow> Inr (np_mean variable_range)))"

text \<open>
  The whole function. Lines 124--125 replace the bounds only when both are \<^verbatim>\<open>None\<close>,
  and then read the global \<^verbatim>\<open>np\<close> twice.
\<close>

definition average_plasma_parameter ::
  "globals \<Rightarrow> real list \<Rightarrow> real list \<Rightarrow> real option \<Rightarrow> real option \<Rightarrow> py_error + float64" where
  "average_plasma_parameter g variable_data variable_time time_start time_end =
     (if time_start = None \<and> time_end = None then
        (case np_amin g variable_time of
           Inl e \<Rightarrow> Inl e
         | Inr lo \<Rightarrow>
             (case np_amax g variable_time of
                Inl e \<Rightarrow> Inl e
              | Inr hi \<Rightarrow> variable_mean variable_data variable_time (Some lo) (Some hi)))
      else variable_mean variable_data variable_time time_start time_end)"

subsection \<open>greenwald\_density\_limit and greenwald\_fraction (lines 134--162)\<close>

text \<open>
  \<^verbatim>\<open>a / b\<close> on two Python floats raises \<open>ZeroDivisionError\<close> when the divisor is zero.
  (\<^verbatim>\<open>np.pi\<close> is a Python float too, so the divisor of line 147 is one whenever the
  radius is.) On numpy scalars the same division would warn and return an infinity or
  not-a-number instead of raising; the model does not cover that case.
\<close>

definition py_truediv :: "real \<Rightarrow> real \<Rightarrow> py_error + real" where
  "py_truediv a b = (if b = 0 then Inl ZeroDivisionError else Inr (a / b))"

text \<open>
  The second argument is optional: \<open>None\<close> stands for a call that omits it, and the
  parameter then takes its default 0.22.
\<close>

definition greenwald_density_limit :: "globals \<Rightarrow> real \<Rightarrow> real option \<Rightarrow> py_error + real" where
  "greenwald_density_limit g average_plasma_current minor_radius_arg =
     (let minor_radius = (case minor_radius_arg of None \<Rightarrow> 22 / 100 | Some r \<Rightarrow> r)
      in case np_pi g of
           Inl e \<Rightarrow> Inl e
         | Inr p \<Rightarrow> py_truediv average_plasma_current (p * minor_radius * minor_radius))"

definition greenwald_fraction :: "real \<Rightarrow> real \<Rightarrow> py_error + real" where
  "greenwald_fraction average_line_averaged_density greenwald_density =
     py_truediv average_line_averaged_density greenwald_density"

subsection \<open>The MDSplus server and the accessors (lines 4--101)\<close>

text \<open>
  The server is a parameter of the model. \<open>reachable\<close> says whether a connection to a
  named server opens, \<open>has_tree\<close> whether a tree exists for a shot, and \<open>evaluate\<close>
  gives the array an expression evaluates to in an open tree, or \<open>None\<close> when the
  server reports an error (no such node, no data). Every failure of the client library
  is the one exception \<open>MDSplusException\<close>; the module catches none of them.
\<close>

record mdsplus =
  reachable :: "string \<Rightarrow> bool"
  has_tree :: "string \<Rightarrow> string \<Rightarrow> int \<Rightarrow> bool"
  evaluate :: "string \<Rightarrow> string \<Rightarrow> int \<Rightarrow> string \<Rightarrow> real list option"

text \<open>The connection object \<^verbatim>\<open>c\<close>: the server, and the tree and shot once opened.\<close>

record connection =
  server :: string
  tree :: "(string \<times> int) option"

text \<open>\<^verbatim>\<open>mds.Connection(name)\<close> reads the global \<^verbatim>\<open>mds\<close>, then connects.\<close>

definition Connection :: "globals \<Rightarrow> mdsplus \<Rightarrow> string \<Rightarrow> py_error + connection" where
  "Connection g r name =
     (case lookup_name g ''mds'' of
        Inl e \<Rightarrow> Inl e
      | Inr m \<Rightarrow>
          if m \<noteq> Module ''MDSplus'' then Inl AttributeError
          else if reachable r name then Inr \<lparr>server = name, tree = None\<rparr>
          else Inl MDSplusException)"

definition openTree :: "mdsplus \<Rightarrow> connection \<Rightarrow> string \<Rightarrow> int \<Rightarrow> py_error + connection" where
  "openTree r c name shot_number =
     (if has_tree r (server c) name shot_number
      then Inr (c\<lparr>tree := Some (name, shot_number)\<rparr>)
      else Inl MDSplusException)"

text \<open>\<^verbatim>\<open>c.get(expression).data()\<close>.\<close>

definition get_data :: "mdsplus \<Rightarrow> connection \<Rightarrow> string \<Rightarrow> py_error + real list" where
  "get_data r c expression =
     (case tree c of
        None \<Rightarrow> Inl MDSplusException
      | Some (name, shot_number) \<Rightarrow>
          (case evaluate r (server c) name shot_number expression of
             None \<Rightarrow> Inl MDSplusException
           | Some v \<Rightarrow> Inr v))"

text \<open>The f-string \<^verbatim>\<open>f"dim_of({dataname})"\<close>.\<close>

definition dim_of :: "string \<Rightarrow> string" where
  "dim_of dataname = ''dim_of('' @ dataname @ '')''"

text \<open>
  The four signal names. In the Python literals the backslash is followed by \<^verbatim>\<open>E\<close> or
  \<^verbatim>\<open>M\<close>, which is no escape sequence, so the backslash (character 0x5C) is part of the
  name.
\<close>

definition line_integrated_density_dataname :: string where
  "line_integrated_density_dataname = CHR 0x5C # ''ELECTRONS::TOP.TCI.RESULTS.NL_04''"

definition line_averaged_density_dataname :: string where
  "line_averaged_density_dataname =
     CHR 0x5C # ''ELECTRONS::TOP.TCI.RESULTS.INVERSION.NEBAR_EFIT''"

definition plasma_current_dataname :: string where
  "plasma_current_dataname = CHR 0x5C # ''MAGNETICS::IP/1000''"

definition toroidal_magnetic_field_dataname :: string where
  "toroidal_magnetic_field_dataname = CHR 0x5C # ''MAGNETICS::BTOR''"

text \<open>Each accessor returns the pair (time, data).\<close>

definition get_line_integrated_density ::
  "globals \<Rightarrow> mdsplus \<Rightarrow> int \<Rightarrow> py_error + (real list \<times> real list)" where
  "get_line_integrated_density g r shot_number =
     (case Connection g r ''alcdata'' of
        Inl e \<Rightarrow> Inl e
      | Inr c0 \<Rightarrow>
     (case openTree r c0 ''electrons'' shot_number of
        Inl e \<Rightarrow> Inl e
      | Inr c \<Rightarrow>
     (case get_data r c line_integrated_density_dataname of
        Inl e \<Rightarrow> Inl e
      | Inr line_integrated_density \<Rightarrow>
     (case get_data r c (dim_of line_integrated_density_dataname) of
        Inl e \<Rightarrow> Inl e
      | Inr line_integrated_density_time \<Rightarrow>
          Inr (line_integrated_density_time, line_integrated_density)))))"

definition get_line_averaged_density ::
  "globals \<Rightarrow> mdsplus \<Rightarrow> int \<Rightarrow> py_error + (real list \<times> real list)" where
  "get_line_averaged_density g r shot_number =
     (case Connection g r ''alcdata'' of
        Inl e \<Rightarrow> Inl e
      | Inr c0 \<Rightarrow>
     (case openTree r c0 ''electrons'' shot_number of
        Inl e \<Rightarrow> Inl e
      | Inr c \<Rightarrow>
     (case get_data r c line_averaged_density_dataname of
        Inl e \<Rightarrow> Inl e
      | Inr line_averaged_density \<Rightarrow>
     (case get_data r c (dim_of line_averaged_density_dataname) of
        Inl e \<Rightarrow> Inl e
      | Inr line_averaged_density_time \<Rightarrow>
          Inr (line_averaged_density_time, line_averaged_density)))))"

definition get_plasma_current ::
  "globals \<Rightarrow> mdsplus \<Rightarrow> int \<Rightarrow> py_error + (real list \<times> real list)" where
  "get_plasma_current g r shot_number =
     (case Connection g r ''alcdata'' of
        Inl e \<Rightarrow> Inl e
      | Inr c0 \<Rightarrow>
     (case openTree r c0 ''magnetics'' shot_number of
        Inl e \<Rightarrow> Inl e
      | Inr c \<Rightarrow>
     (case get_data r c plasma_current_dataname of
        Inl e \<Rightarrow> Inl e
      | Inr plasma_current \<Rightarrow>
     (case get_data r c (dim_of plasma_current_dataname) of
        Inl e \<Rightarrow> Inl e
      | Inr plasma_current_time \<Rightarrow>
          Inr (plasma_current_time, plasma_current)))))"

text \<open>Line 97 negates the fetched array, element by element, before the time is fetched.\<close>

definition get_toroidal_magnetic_field ::
  "globals \<Rightarrow> mdsplus \<Rightarrow> int \<Rightarrow> py_error + (real list \<times> real list)" where
  "get_toroidal_magnetic_field g r shot_number =
     (case Connection g r ''alcdata'' of
        Inl e \<Rightarrow> Inl e
      | Inr c0 \<Rightarrow>
     (case openTree r c0 ''magnetics'' shot_number of
        Inl e \<Rightarrow> Inl e
      | Inr c \<Rightarrow>
     (case get_data r c toroidal_magnetic_field_dataname of
        Inl e \<Rightarrow> Inl e
      | Inr raw \<Rightarrow>
     (let toroidal_magnetic_field = map uminus raw
      in case get_data r c (dim_of toroidal_magnetic_field_dataname) of
           Inl e \<Rightarrow> Inl e
         | Inr toroidal_magnetic_field_time \<Rightarrow>
             Inr (toroidal_magnetic_field_time, toroidal_magnetic_field)))))"

text \<open>
  Two servers to evaluate the accessors on. \<open>example_server\<close> stores three samples and
  three times for every signal; \<open>ragged_server\<close> stores a signal whose time axis is
  shorter than its values, which MDSplus allows (a signal node holds its values and its
  dimension as two independent expressions).
\<close>

definition example_server :: mdsplus where
  "example_server =
     \<lparr>reachable = (\<lambda>name. name = ''alcdata''),
      has_tree = (\<lambda>name t shot_number. t = ''electrons'' \<or> t = ''magnetics''),
      evaluate = (\<lambda>name t shot_number expression.
         if take 7 expression = ''dim_of('' then Some [0, 1, 2] else Some [5, -6, 7])\<rparr>"

definition ragged_server :: mdsplus where
  "ragged_server =
     \<lparr>reachable = (\<lambda>name. name = ''alcdata''),
      has_tree = (\<lambda>name t shot_number. t = ''electrons'' \<or> t = ''magnetics''),
      evaluate = (\<lambda>name t shot_number expression.
         if take 7 expression = ''dim_of('' then Some [0] else Some [1, 2])\<rparr>"

subsection \<open>The unbound name\<close>

lemma np_unbound: "lookup_name module_globals ''np'' = Inl NameError"
  by (simp add: lookup_name_def module_globals_def)

lemma np_pi_unbound: "np_pi module_globals = Inl NameError"
  by (simp add: np_pi_def np_unbound)

lemma np_amin_unbound: "np_amin module_globals xs = Inl NameError"
  by (simp add: np_amin_def np_unbound)

text \<open>
  C10. The module imports only MDSplus and never binds \<^verbatim>\<open>np\<close>: in the module's own
  namespace every call of \<open>greenwald_density_limit\<close>, with or without the minor radius,
  and every call of \<open>average_plasma_parameter\<close> with both bounds \<^verbatim>\<open>None\<close>, raises
  \<open>NameError\<close> and returns no value.
\<close>

theorem np_never_bound:
  "module_globals ''np'' = None
   \<and> greenwald_density_limit module_globals average_plasma_current minor_radius_arg
       = Inl NameError
   \<and> average_plasma_parameter module_globals variable_data variable_time None None
       = Inl NameError"
proof -
  have "module_globals ''np'' = None"
    by (simp add: module_globals_def)
  moreover have "greenwald_density_limit module_globals average_plasma_current
      minor_radius_arg = Inl NameError"
    by (simp add: greenwald_density_limit_def np_pi_unbound)
  moreover have "average_plasma_parameter module_globals variable_data variable_time
      None None = Inl NameError"
    by (simp add: average_plasma_parameter_def np_amin_unbound)
  ultimately show ?thesis by simp
qed

lemma np_bound: "lookup_name globals_with_numpy ''np'' = Inr (Module ''numpy'')"
  by (simp add: lookup_name_def globals_with_numpy_def)

subsection \<open>The window of average\_plasma\_parameter\<close>

text \<open>
  With a float bound the comparison is the element-wise test; with \<^verbatim>\<open>None\<close> it fails at
  the first sample.
\<close>

lemma np_less_Some: "np_less xs (Some b) = Inr (map (\<lambda>x. x < b) xs)"
  by (induction xs) simp_all

lemma np_greater_Some: "np_greater xs (Some b) = Inr (map (\<lambda>x. b < x) xs)"
  by (induction xs) simp_all

lemma np_less_None: "xs \<noteq> [] \<Longrightarrow> np_less xs None = Inl TypeError"
  by (cases xs) simp_all

lemma np_greater_None: "xs \<noteq> [] \<Longrightarrow> np_greater xs None = Inl TypeError"
  by (cases xs) simp_all

lemma np_and_map: "np_and (map p xs) (map q xs) = map (\<lambda>x. p x \<and> q x) xs"
  by (induction xs) (simp_all add: np_and_def)

lemma time_interval_Some:
  "time_interval variable_time (Some time_start) (Some time_end) =
     Inr (map (\<lambda>t. t < time_end \<and> time_start < t) variable_time)"
  by (simp add: time_interval_def np_less_Some np_greater_Some np_and_map)

text \<open>Indexing by the mask of a predicate is filtering the paired samples by it.\<close>

lemma select_by_mask:
  "length xs = length ts \<Longrightarrow>
   map fst (filter snd (zip xs (map p ts))) = map fst (filter (\<lambda>(v, t). p t) (zip xs ts))"
  by (induction xs ts rule: list_induct2) simp_all

lemma variable_mean_Some:
  "length variable_data = length variable_time \<Longrightarrow>
   variable_mean variable_data variable_time (Some time_start) (Some time_end) =
     Inr (np_mean (map fst (filter (\<lambda>(v, t). time_start < t \<and> t < time_end)
       (zip variable_data variable_time))))"
  by (simp add: variable_mean_def time_interval_Some np_index_def select_by_mask conj_commute)

text \<open>
  Arrays of two lengths: an empty time array gives an empty mask, which selects nothing,
  and any other mismatch raises.
\<close>

lemma variable_mean_no_times:
  "variable_mean variable_data [] (Some time_start) (Some time_end) = Inr NaN"
  by (simp add: variable_mean_def time_interval_Some np_index_def np_mean_def)

lemma variable_mean_ragged:
  "length variable_data \<noteq> length variable_time \<Longrightarrow> variable_time \<noteq> [] \<Longrightarrow>
   variable_mean variable_data variable_time (Some time_start) (Some time_end) = Inl IndexError"
  by (simp add: variable_mean_def time_interval_Some np_index_def)

text \<open>
  C2. With both bounds given, \<open>average_plasma_parameter\<close> selects exactly the samples
  whose time is strictly greater than \<open>time_start\<close> and strictly less than \<open>time_end\<close>
  (\<open>sel\<close>, in the order of the array) and returns their arithmetic mean: the sum of the
  selected data divided by their number. (An empty selection has no mean and gives
  not-a-number.) The data and time arrays have one length, as the pairing of a signal
  with its time axis requires.
\<close>

theorem average_plasma_parameter_window:
  assumes "length variable_data = length variable_time"
    and "sel = map fst (filter (\<lambda>(v, t). time_start < t \<and> t < time_end)
           (zip variable_data variable_time))"
  shows "average_plasma_parameter g variable_data variable_time
           (Some time_start) (Some time_end) =
         Inr (if sel = [] then NaN else Finite (sum_list sel / real (length sel)))"
  using assms
  by (simp add: average_plasma_parameter_def variable_mean_Some np_mean_def)

text \<open>
  Two instances. The one of the specification: data 1..5 at times 0..4 with the window
  (1, 3) selects the one sample at time 2, and the mean is 3. One with several samples:
  data 1, 2, 4, 8, 16 at the same times with the window (0, 4) selects 2, 4, 8, whose
  mean is 14/3 (not their first, their greatest or their sum).
\<close>

theorem average_plasma_parameter_window_witness:
  "length [1, 2, 3, 4, 5 :: real] = length [0, 1, 2, 3, 4 :: real]
   \<and> [3 :: real] = map fst (filter (\<lambda>(v, t). 1 < t \<and> t < 3)
         (zip [1, 2, 3, 4, 5] [0, 1, 2, 3, 4 :: real]))
   \<and> average_plasma_parameter module_globals [1, 2, 3, 4, 5] [0, 1, 2, 3, 4] (Some 1) (Some 3)
       = Inr (Finite 3)
   \<and> length [1, 2, 4, 8, 16 :: real] = length [0, 1, 2, 3, 4 :: real]
   \<and> [2, 4, 8 :: real] = map fst (filter (\<lambda>(v, t). 0 < t \<and> t < 4)
         (zip [1, 2, 4, 8, 16] [0, 1, 2, 3, 4 :: real]))
   \<and> average_plasma_parameter module_globals [1, 2, 4, 8, 16] [0, 1, 2, 3, 4] (Some 0) (Some 4)
       = Inr (Finite (14 / 3))"
proof -
  have len1: "length [1, 2, 3, 4, 5 :: real] = length [0, 1, 2, 3, 4 :: real]"
    by simp
  have sel1: "[3 :: real] = map fst (filter (\<lambda>(v, t). 1 < t \<and> t < 3)
      (zip [1, 2, 3, 4, 5] [0, 1, 2, 3, 4 :: real]))"
    by simp
  have len2: "length [1, 2, 4, 8, 16 :: real] = length [0, 1, 2, 3, 4 :: real]"
    by simp
  have sel2: "[2, 4, 8 :: real] = map fst (filter (\<lambda>(v, t). 0 < t \<and> t < 4)
      (zip [1, 2, 4, 8, 16] [0, 1, 2, 3, 4 :: real]))"
    by simp
  have r1: "average_plasma_parameter module_globals [1, 2, 3, 4, 5] [0, 1, 2, 3, 4]
      (Some 1) (Some 3) = Inr (Finite 3)"
    using average_plasma_parameter_window [OF len1 sel1, of module_globals] by simp
  have r2: "average_plasma_parameter module_globals [1, 2, 4, 8, 16] [0, 1, 2, 3, 4]
      (Some 0) (Some 4) = Inr (Finite (14 / 3))"
    using average_plasma_parameter_window [OF len2 sel2, of module_globals] by simp
  from len1 sel1 r1 len2 sel2 r2 show ?thesis
    by (intro conjI)
qed

text \<open>
  C4. When exactly one of the two bounds is \<^verbatim>\<open>None\<close>, lines 124--125 are skipped: the call
  is the windowed mean on the bounds as given, whatever the namespace holds, and the
  \<^verbatim>\<open>None\<close> reaches the comparison of line 127, which raises \<open>TypeError\<close> as
  soon as there is a sample to compare.
\<close>

theorem one_bound_given_no_default:
  "(time_start = None) \<noteq> (time_end = None) \<Longrightarrow>
   average_plasma_parameter g variable_data variable_time time_start time_end
     = variable_mean variable_data variable_time time_start time_end
   \<and> (variable_time \<noteq> [] \<longrightarrow>
        average_plasma_parameter g variable_data variable_time time_start time_end
          = Inl TypeError)"
  by (cases time_start; cases time_end)
     (auto simp: average_plasma_parameter_def variable_mean_def time_interval_def
        np_less_None np_greater_None np_less_Some)

text \<open>The witness has numpy bound, so that a default could have been computed.\<close>

theorem one_bound_given_no_default_witness:
  "(Some (1::real) = None) \<noteq> ((None :: real option) = None) \<and> [0, 1, 2 :: real] \<noteq> []
   \<and> average_plasma_parameter globals_with_numpy [1, 2, 3] [0, 1, 2] (Some 1) None
       = variable_mean [1, 2, 3] [0, 1, 2] (Some 1) None
   \<and> average_plasma_parameter globals_with_numpy [1, 2, 3] [0, 1, 2] (Some 1) None
       = Inl TypeError"
proof -
  have h: "(Some (1::real) = None) \<noteq> ((None :: real option) = None)"
    by simp
  have ne: "[0, 1, 2 :: real] \<noteq> []"
    by simp
  from one_bound_given_no_default [OF h, of globals_with_numpy "[1, 2, 3]" "[0, 1, 2]"]
  show ?thesis
    using h ne by blast
qed

subsection \<open>The default window\<close>

text \<open>
  What lines 124--125 compute once \<^verbatim>\<open>np\<close> is bound to numpy: the window is the open
  interval between the least and the greatest time.
\<close>

lemma average_plasma_parameter_default_with_numpy:
  "variable_time \<noteq> [] \<Longrightarrow> length variable_data = length variable_time \<Longrightarrow>
   average_plasma_parameter globals_with_numpy variable_data variable_time None None =
     Inr (np_mean (map fst (filter
       (\<lambda>(v, t). Min (set variable_time) < t \<and> t < Max (set variable_time))
       (zip variable_data variable_time))))"
  by (simp add: average_plasma_parameter_def np_amin_def np_amax_def np_bound
      variable_mean_Some)

lemma average_plasma_parameter_default_example:
  "average_plasma_parameter globals_with_numpy [1, 2, 3, 4, 5] [0, 1, 2, 3, 4] None None
     = Inr (Finite 3)"
  by (simp add: average_plasma_parameter_default_with_numpy np_mean_def)

text \<open>
  C3. With both bounds \<^verbatim>\<open>None\<close> the window is meant to default to the minimum and the
  maximum of the time array; on times 0..4 that selects the samples at times 1, 2, 3
  (\<open>average_plasma_parameter_default_example\<close>, with numpy bound). In the module's own
  namespace the call reads the unbound \<^verbatim>\<open>np\<close> and raises instead.
\<close>

theorem defaulted_window_name_error:
  "average_plasma_parameter module_globals [1, 2, 3, 4, 5] [0, 1, 2, 3, 4] None None
     = Inl NameError"
  by (simp add: average_plasma_parameter_def np_amin_unbound)

subsection \<open>The empty selection\<close>

text \<open>
  With both bounds given and no sample strictly inside the window, the selection is
  empty and the result is not-a-number; nothing is raised. The same holds for the
  default window once numpy is bound.
\<close>

lemma empty_window_nan:
  "length variable_data = length variable_time \<Longrightarrow>
   \<forall>t \<in> set variable_time. \<not> (time_start < t \<and> t < time_end) \<Longrightarrow>
   average_plasma_parameter g variable_data variable_time (Some time_start) (Some time_end)
     = Inr NaN"
proof -
  assume len: "length variable_data = length variable_time"
    and out: "\<forall>t \<in> set variable_time. \<not> (time_start < t \<and> t < time_end)"
  have "filter (\<lambda>(v, t). time_start < t \<and> t < time_end) (zip variable_data variable_time) = []"
    using out by (auto simp: filter_empty_conv dest: set_zip_rightD)
  then show ?thesis
    by (simp add: average_plasma_parameter_def variable_mean_Some [OF len] np_mean_def)
qed

lemma empty_default_window_with_numpy:
  "average_plasma_parameter globals_with_numpy [1, 2] [0, 1] None None = Inr NaN"
  by (simp add: average_plasma_parameter_default_with_numpy np_mean_def)

text \<open>
  C8. A window that holds no sample gives the mean of an empty selection, not-a-number,
  and no error (\<open>empty_window_nan\<close>). For the defaulted window the module's own namespace
  makes the call raise \<open>NameError\<close> before any selection: times 0, 1 have no sample
  strictly between their minimum and maximum.
\<close>

theorem empty_selection_default_name_error:
  "average_plasma_parameter module_globals [1, 2] [0, 1] None None = Inl NameError"
  by (simp add: average_plasma_parameter_def np_amin_unbound)

subsection \<open>The Greenwald limit and fraction\<close>

text \<open>
  What line 147 computes once \<^verbatim>\<open>np\<close> is bound to numpy: the current over
  \<open>\<pi>\<close> times the squared radius, with the radius 0.22 when the argument is omitted.
\<close>

lemma greenwald_density_limit_with_numpy:
  "minor_radius \<noteq> 0 \<Longrightarrow>
   greenwald_density_limit globals_with_numpy average_plasma_current (Some minor_radius)
     = Inr (average_plasma_current / (pi * minor_radius * minor_radius))"
  by (simp add: greenwald_density_limit_def np_pi_def np_bound py_truediv_def)

lemma greenwald_density_limit_default_with_numpy:
  "greenwald_density_limit globals_with_numpy average_plasma_current None
     = greenwald_density_limit globals_with_numpy average_plasma_current (Some (22 / 100))"
  by (simp add: greenwald_density_limit_def)

text \<open>
  C1. \<open>greenwald_density_limit(I, r)\<close> is meant to return \<open>I / (\<pi> r\<^sup>2)\<close>
  (\<open>greenwald_density_limit_with_numpy\<close>). In the module's own namespace the call
  \<open>greenwald_density_limit(1.0, 0.22)\<close> reads the unbound \<^verbatim>\<open>np\<close> and raises.
\<close>

theorem greenwald_density_limit_name_error:
  "greenwald_density_limit module_globals 1 (Some (22 / 100)) = Inl NameError"
  by (simp add: greenwald_density_limit_def np_pi_unbound)

text \<open>
  C5, as stated: for every density and every limit the function returns the ratio. At the
  limit 0 the division raises \<open>ZeroDivisionError\<close> and nothing is returned.
\<close>

theorem greenwald_fraction_zero_limit:
  "greenwald_fraction (1 / 2) 0 = Inl ZeroDivisionError"
  by (simp add: greenwald_fraction_def py_truediv_def)

text \<open>
  C5, amended. For every density and every limit other than 0, \<open>greenwald_fraction\<close>
  returns exactly the ratio of the two, with no clamping to the interval from 0 to 1.
\<close>

theorem greenwald_fraction_ratio:
  "greenwald_density \<noteq> 0 \<Longrightarrow>
   greenwald_fraction average_line_averaged_density greenwald_density
     = Inr (average_line_averaged_density / greenwald_density)"
  by (simp add: greenwald_fraction_def py_truediv_def)

text \<open>The two instances of the specification: 0.5 / 1.0 = 0.5 and 2.0 / 1.0 = 2.0.\<close>

theorem greenwald_fraction_ratio_witness:
  "(1::real) \<noteq> 0 \<and> greenwald_fraction (1 / 2) 1 = Inr (1 / 2) \<and> greenwald_fraction 2 1 = Inr 2"
  using greenwald_fraction_ratio [of 1 "1 / 2"] greenwald_fraction_ratio [of 1 2]
  by simp

text \<open>At the limit 0 the division raises, whatever the density.\<close>

lemma greenwald_fraction_zero_raises:
  "greenwald_fraction average_line_averaged_density 0 = Inl ZeroDivisionError"
  by (simp add: greenwald_fraction_def py_truediv_def)

subsection \<open>The accessors\<close>

text \<open>In the module's namespace \<^verbatim>\<open>mds\<close> is bound, and the connection opens the tree.\<close>

lemma mds_bound: "lookup_name module_globals ''mds'' = Inr (Module ''MDSplus'')"
  by (simp add: lookup_name_def module_globals_def)

lemma open_connection:
  "reachable r ''alcdata'' \<Longrightarrow> has_tree r ''alcdata'' name shot_number \<Longrightarrow>
   Connection module_globals r ''alcdata'' = Inr \<lparr>server = ''alcdata'', tree = None\<rparr>
   \<and> openTree r \<lparr>server = ''alcdata'', tree = None\<rparr> name shot_number
       = Inr \<lparr>server = ''alcdata'', tree = Some (name, shot_number)\<rparr>"
  by (simp add: Connection_def openTree_def mds_bound)

lemma get_data_open:
  "get_data r \<lparr>server = s, tree = Some (name, shot_number)\<rparr> expression =
     (case evaluate r s name shot_number expression of
        None \<Rightarrow> Inl MDSplusException | Some v \<Rightarrow> Inr v)"
  by (simp add: get_data_def)

text \<open>When the server answers both expressions, the accessor returns the pair.\<close>

lemma get_line_integrated_density_fetched:
  assumes "reachable r ''alcdata''" and "has_tree r ''alcdata'' ''electrons'' shot_number"
    and "evaluate r ''alcdata'' ''electrons'' shot_number line_integrated_density_dataname
           = Some raw"
    and "evaluate r ''alcdata'' ''electrons'' shot_number
           (dim_of line_integrated_density_dataname) = Some tm"
  shows "get_line_integrated_density module_globals r shot_number = Inr (tm, raw)"
  using assms open_connection [of r "''electrons''" shot_number]
  by (simp add: get_line_integrated_density_def get_data_open)

lemma get_line_averaged_density_fetched:
  assumes "reachable r ''alcdata''" and "has_tree r ''alcdata'' ''electrons'' shot_number"
    and "evaluate r ''alcdata'' ''electrons'' shot_number line_averaged_density_dataname
           = Some raw"
    and "evaluate r ''alcdata'' ''electrons'' shot_number
           (dim_of line_averaged_density_dataname) = Some tm"
  shows "get_line_averaged_density module_globals r shot_number = Inr (tm, raw)"
  using assms open_connection [of r "''electrons''" shot_number]
  by (simp add: get_line_averaged_density_def get_data_open)

lemma get_plasma_current_fetched:
  assumes "reachable r ''alcdata''" and "has_tree r ''alcdata'' ''magnetics'' shot_number"
    and "evaluate r ''alcdata'' ''magnetics'' shot_number plasma_current_dataname = Some raw"
    and "evaluate r ''alcdata'' ''magnetics'' shot_number (dim_of plasma_current_dataname)
           = Some tm"
  shows "get_plasma_current module_globals r shot_number = Inr (tm, raw)"
  using assms open_connection [of r "''magnetics''" shot_number]
  by (simp add: get_plasma_current_def get_data_open)

lemma get_toroidal_magnetic_field_fetched:
  assumes "reachable r ''alcdata''" and "has_tree r ''alcdata'' ''magnetics'' shot_number"
    and "evaluate r ''alcdata'' ''magnetics'' shot_number toroidal_magnetic_field_dataname
           = Some raw"
    and "evaluate r ''alcdata'' ''magnetics'' shot_number
           (dim_of toroidal_magnetic_field_dataname) = Some tm"
  shows "get_toroidal_magnetic_field module_globals r shot_number = Inr (tm, map uminus raw)"
  using assms open_connection [of r "''magnetics''" shot_number]
  by (simp add: get_toroidal_magnetic_field_def get_data_open)

text \<open>Conversely, an accessor that returns has fetched both arrays.\<close>

lemma get_data_Inr:
  "get_data r c expression = Inr v \<Longrightarrow>
   \<exists>name shot_number. tree c = Some (name, shot_number)
     \<and> evaluate r (server c) name shot_number expression = Some v"
  by (auto simp: get_data_def split: option.splits)

lemma Connection_Inr: "Connection g r name = Inr c \<Longrightarrow> c = \<lparr>server = name, tree = None\<rparr>"
  by (auto simp: Connection_def split: sum.splits if_splits)

lemma openTree_Inr:
  "openTree r c name shot_number = Inr c' \<Longrightarrow> c' = c\<lparr>tree := Some (name, shot_number)\<rparr>"
  by (auto simp: openTree_def split: if_splits)

lemma get_line_integrated_density_returned:
  assumes "get_line_integrated_density g r shot_number = Inr (tm, d)"
  shows "evaluate r ''alcdata'' ''electrons'' shot_number line_integrated_density_dataname
           = Some d
         \<and> evaluate r ''alcdata'' ''electrons'' shot_number
             (dim_of line_integrated_density_dataname) = Some tm"
  using assms
  by (auto simp: get_line_integrated_density_def
      split: sum.splits dest!: Connection_Inr openTree_Inr get_data_Inr)

lemma get_line_averaged_density_returned:
  assumes "get_line_averaged_density g r shot_number = Inr (tm, d)"
  shows "evaluate r ''alcdata'' ''electrons'' shot_number line_averaged_density_dataname
           = Some d
         \<and> evaluate r ''alcdata'' ''electrons'' shot_number
             (dim_of line_averaged_density_dataname) = Some tm"
  using assms
  by (auto simp: get_line_averaged_density_def
      split: sum.splits dest!: Connection_Inr openTree_Inr get_data_Inr)

lemma get_plasma_current_returned:
  assumes "get_plasma_current g r shot_number = Inr (tm, d)"
  shows "evaluate r ''alcdata'' ''magnetics'' shot_number plasma_current_dataname = Some d
         \<and> evaluate r ''alcdata'' ''magnetics'' shot_number
             (dim_of plasma_current_dataname) = Some tm"
  using assms
  by (auto simp: get_plasma_current_def
      split: sum.splits dest!: Connection_Inr openTree_Inr get_data_Inr)

lemma get_toroidal_magnetic_field_returned:
  assumes "get_toroidal_magnetic_field g r shot_number = Inr (tm, d)"
  shows "\<exists>raw. evaluate r ''alcdata'' ''magnetics'' shot_number
             toroidal_magnetic_field_dataname = Some raw
           \<and> evaluate r ''alcdata'' ''magnetics'' shot_number
               (dim_of toroidal_magnetic_field_dataname) = Some tm
           \<and> d = map uminus raw"
  using assms
  by (auto simp: get_toroidal_magnetic_field_def Let_def
      split: sum.splits dest!: Connection_Inr openTree_Inr get_data_Inr)

text \<open>The two servers, evaluated.\<close>

lemma example_server_answers:
  "reachable example_server ''alcdata''"
  "has_tree example_server ''alcdata'' ''electrons'' shot_number"
  "has_tree example_server ''alcdata'' ''magnetics'' shot_number"
  "evaluate example_server s t shot_number (CHR 0x5C # name) = Some [5, -6, 7]"
  "evaluate example_server s t shot_number (dim_of name) = Some [0, 1, 2]"
  by (simp_all add: example_server_def dim_of_def)

lemma ragged_server_answers:
  "reachable ragged_server ''alcdata''"
  "has_tree ragged_server ''alcdata'' ''electrons'' shot_number"
  "has_tree ragged_server ''alcdata'' ''magnetics'' shot_number"
  "evaluate ragged_server s t shot_number (CHR 0x5C # name) = Some [1, 2]"
  "evaluate ragged_server s t shot_number (dim_of name) = Some [0]"
  by (simp_all add: ragged_server_def dim_of_def)

lemma example_server_results:
  "get_line_integrated_density module_globals example_server 1 = Inr ([0, 1, 2], [5, -6, 7])"
  "get_line_averaged_density module_globals example_server 1 = Inr ([0, 1, 2], [5, -6, 7])"
  "get_plasma_current module_globals example_server 1 = Inr ([0, 1, 2], [5, -6, 7])"
  "get_toroidal_magnetic_field module_globals example_server 1 = Inr ([0, 1, 2], [-5, 6, -7])"
  by (simp_all add: get_line_integrated_density_fetched get_line_averaged_density_fetched
      get_plasma_current_fetched get_toroidal_magnetic_field_fetched
      example_server_answers line_integrated_density_dataname_def
      line_averaged_density_dataname_def plasma_current_dataname_def
      toroidal_magnetic_field_dataname_def)

text \<open>
  C6. For every shot number, \<open>get_toroidal_magnetic_field\<close> returns a pair exactly when
  the server is reached, the tree opens and both expressions evaluate; the data returned
  is then the element-wise negation of the values fetched from \<^verbatim>\<open>\MAGNETICS::BTOR\<close>, and
  the time returned is the array fetched from \<^verbatim>\<open>dim_of(\MAGNETICS::BTOR)\<close>, unmodified.
\<close>

theorem toroidal_field_negated:
  "get_toroidal_magnetic_field module_globals r shot_number = Inr (tm, d) \<longleftrightarrow>
     reachable r ''alcdata'' \<and> has_tree r ''alcdata'' ''magnetics'' shot_number
     \<and> (\<exists>raw. evaluate r ''alcdata'' ''magnetics'' shot_number
                 (CHR 0x5C # ''MAGNETICS::BTOR'') = Some raw
               \<and> d = map uminus raw)
     \<and> evaluate r ''alcdata'' ''magnetics'' shot_number
         (''dim_of('' @ CHR 0x5C # ''MAGNETICS::BTOR'' @ '')'') = Some tm"
  (is "?lhs \<longleftrightarrow> ?rhs")
proof
  assume ?lhs
  then have ev: "\<exists>raw. evaluate r ''alcdata'' ''magnetics'' shot_number
             toroidal_magnetic_field_dataname = Some raw
           \<and> evaluate r ''alcdata'' ''magnetics'' shot_number
               (dim_of toroidal_magnetic_field_dataname) = Some tm
           \<and> d = map uminus raw"
    by (rule get_toroidal_magnetic_field_returned)
  from \<open>?lhs\<close> have "reachable r ''alcdata'' \<and> has_tree r ''alcdata'' ''magnetics'' shot_number"
    by (auto simp: get_toroidal_magnetic_field_def Connection_def openTree_def
        split: sum.splits if_splits)
  with ev show ?rhs
    by (auto simp: toroidal_magnetic_field_dataname_def dim_of_def)
next
  assume ?rhs
  then show ?lhs
    using get_toroidal_magnetic_field_fetched [of r shot_number _ tm]
    by (auto simp: toroidal_magnetic_field_dataname_def dim_of_def)
qed

theorem toroidal_field_negated_witness:
  "get_toroidal_magnetic_field module_globals example_server 1 = Inr ([0, 1, 2], [-5, 6, -7])
   \<and> evaluate example_server ''alcdata'' ''magnetics'' 1 (CHR 0x5C # ''MAGNETICS::BTOR'')
       = Some [5, -6, 7]
   \<and> evaluate example_server ''alcdata'' ''magnetics'' 1
       (''dim_of('' @ CHR 0x5C # ''MAGNETICS::BTOR'' @ '')'') = Some [0, 1, 2]"
  using toroidal_field_negated [of example_server 1 "[0, 1, 2]" "[-5, 6, -7]"]
  by (simp add: example_server_def)

text \<open>
  C7. For every shot number, \<open>get_plasma_current\<close> returns a pair exactly when the server
  is reached, the tree opens and both expressions evaluate; the data returned is then
  the array the server gives for the expression \<^verbatim>\<open>\MAGNETICS::IP/1000\<close> (the division is
  part of the expression sent), with nothing applied to it by the function.
\<close>

theorem plasma_current_as_fetched:
  "get_plasma_current module_globals r shot_number = Inr (tm, d) \<longleftrightarrow>
     reachable r ''alcdata'' \<and> has_tree r ''alcdata'' ''magnetics'' shot_number
     \<and> evaluate r ''alcdata'' ''magnetics'' shot_number
         (CHR 0x5C # ''MAGNETICS::IP/1000'') = Some d
     \<and> evaluate r ''alcdata'' ''magnetics'' shot_number
         (''dim_of('' @ CHR 0x5C # ''MAGNETICS::IP/1000'' @ '')'') = Some tm"
  (is "?lhs \<longleftrightarrow> ?rhs")
proof
  assume ?lhs
  then have ev: "evaluate r ''alcdata'' ''magnetics'' shot_number plasma_current_dataname
           = Some d
         \<and> evaluate r ''alcdata'' ''magnetics'' shot_number
             (dim_of plasma_current_dataname) = Some tm"
    by (rule get_plasma_current_returned)
  from \<open>?lhs\<close> have "reachable r ''alcdata'' \<and> has_tree r ''alcdata'' ''magnetics'' shot_number"
    by (auto simp: get_plasma_current_def Connection_def openTree_def
        split: sum.splits if_splits)
  with ev show ?rhs
    by (simp add: plasma_current_dataname_def dim_of_def)
next
  assume ?rhs
  then show ?lhs
    using get_plasma_current_fetched [of r shot_number d tm]
    by (simp add: plasma_current_dataname_def dim_of_def)
qed

theorem plasma_current_as_fetched_witness:
  "get_plasma_current module_globals example_server 1 = Inr ([0, 1, 2], [5, -6, 7])
   \<and> evaluate example_server ''alcdata'' ''magnetics'' 1 (CHR 0x5C # ''MAGNETICS::IP/1000'')
       = Some [5, -6, 7]"
  using plasma_current_as_fetched [of example_server 1 "[0, 1, 2]" "[5, -6, 7]"]
  by (simp add: example_server_def)

text \<open>
  C9, as stated: the time and the data returned by an accessor have equal length. The
  accessors check nothing: on a server whose signal has two values and one time, the
  line-integrated density comes back with two values and one time.
\<close>

theorem ragged_signal_returned:
  "get_line_integrated_density module_globals ragged_server 1 = Inr ([0], [1, 2])
   \<and> length [0 :: real] \<noteq> length [1, 2 :: real]"
  by (simp add: get_line_integrated_density_fetched ragged_server_answers
      line_integrated_density_dataname_def)

text \<open>
  C9, amended. Each of the four accessors, when it returns, returns the time array as
  fetched from \<^verbatim>\<open>dim_of(path)\<close> and the data array as fetched from the path (negated
  element by element for the toroidal field): the two returned arrays have equal length
  exactly when the two arrays the server gave have.
\<close>

theorem accessors_return_what_was_fetched:
  "(\<forall>tm d. get_line_integrated_density g r shot_number = Inr (tm, d) \<longrightarrow>
      (\<exists>raw raw_time.
         evaluate r ''alcdata'' ''electrons'' shot_number
           line_integrated_density_dataname = Some raw
         \<and> evaluate r ''alcdata'' ''electrons'' shot_number
             (dim_of line_integrated_density_dataname) = Some raw_time
         \<and> tm = raw_time \<and> d = raw
         \<and> (length tm = length d \<longleftrightarrow> length raw_time = length raw)))
   \<and> (\<forall>tm d. get_line_averaged_density g r shot_number = Inr (tm, d) \<longrightarrow>
      (\<exists>raw raw_time.
         evaluate r ''alcdata'' ''electrons'' shot_number
           line_averaged_density_dataname = Some raw
         \<and> evaluate r ''alcdata'' ''electrons'' shot_number
             (dim_of line_averaged_density_dataname) = Some raw_time
         \<and> tm = raw_time \<and> d = raw
         \<and> (length tm = length d \<longleftrightarrow> length raw_time = length raw)))
   \<and> (\<forall>tm d. get_plasma_current g r shot_number = Inr (tm, d) \<longrightarrow>
      (\<exists>raw raw_time.
         evaluate r ''alcdata'' ''magnetics'' shot_number plasma_current_dataname = Some raw
         \<and> evaluate r ''alcdata'' ''magnetics'' shot_number
             (dim_of plasma_current_dataname) = Some raw_time
         \<and> tm = raw_time \<and> d = raw
         \<and> (length tm = length d \<longleftrightarrow> length raw_time = length raw)))
   \<and> (\<forall>tm d. get_toroidal_magnetic_field g r shot_number = Inr (tm, d) \<longrightarrow>
      (\<exists>raw raw_time.
         evaluate r ''alcdata'' ''magnetics'' shot_number
           toroidal_magnetic_field_dataname = Some raw
         \<and> evaluate r ''alcdata'' ''magnetics'' shot_number
             (dim_of toroidal_magnetic_field_dataname) = Some raw_time
         \<and> tm = raw_time \<and> d = map uminus raw
         \<and> (length tm = length d \<longleftrightarrow> length raw_time = length raw)))"
proof (intro conjI allI impI)
  fix tm d
  assume "get_line_integrated_density g r shot_number = Inr (tm, d)"
  from get_line_integrated_density_returned [OF this]
  show "\<exists>raw raw_time.
         evaluate r ''alcdata'' ''electrons'' shot_number
           line_integrated_density_dataname = Some raw
         \<and> evaluate r ''alcdata'' ''electrons'' shot_number
             (dim_of line_integrated_density_dataname) = Some raw_time
         \<and> tm = raw_time \<and> d = raw
         \<and> (length tm = length d \<longleftrightarrow> length raw_time = length raw)"
    by simp
next
  fix tm d
  assume "get_line_averaged_density g r shot_number = Inr (tm, d)"
  from get_line_averaged_density_returned [OF this]
  show "\<exists>raw raw_time.
         evaluate r ''alcdata'' ''electrons'' shot_number
           line_averaged_density_dataname = Some raw
         \<and> evaluate r ''alcdata'' ''electrons'' shot_number
             (dim_of line_averaged_density_dataname) = Some raw_time
         \<and> tm = raw_time \<and> d = raw
         \<and> (length tm = length d \<longleftrightarrow> length raw_time = length raw)"
    by simp
next
  fix tm d
  assume "get_plasma_current g r shot_number = Inr (tm, d)"
  from get_plasma_current_returned [OF this]
  show "\<exists>raw raw_time.
         evaluate r ''alcdata'' ''magnetics'' shot_number plasma_current_dataname = Some raw
         \<and> evaluate r ''alcdata'' ''magnetics'' shot_number
             (dim_of plasma_current_dataname) = Some raw_time
         \<and> tm = raw_time \<and> d = raw
         \<and> (length tm = length d \<longleftrightarrow> length raw_time = length raw)"
    by simp
next
  fix tm d
  assume "get_toroidal_magnetic_field g r shot_number = Inr (tm, d)"
  from get_toroidal_magnetic_field_returned [OF this]
  show "\<exists>raw raw_time.
         evaluate r ''alcdata'' ''magnetics'' shot_number
           toroidal_magnetic_field_dataname = Some raw
         \<and> evaluate r ''alcdata'' ''magnetics'' shot_number
             (dim_of toroidal_magnetic_field_dataname) = Some raw_time
         \<and> tm = raw_time \<and> d = map uminus raw
         \<and> (length tm = length d \<longleftrightarrow> length raw_time = length raw)"
    by auto
qed

theorem accessors_return_what_was_fetched_witness:
  "get_line_integrated_density module_globals example_server 1 = Inr ([0, 1, 2], [5, -6, 7])
   \<and> get_line_averaged_density module_globals example_server 1 = Inr ([0, 1, 2], [5, -6, 7])
   \<and> get_plasma_current module_globals example_server 1 = Inr ([0, 1, 2], [5, -6, 7])
   \<and> get_toroidal_magnetic_field module_globals example_server 1
       = Inr ([0, 1, 2], [-5, 6, -7])
   \<and> evaluate example_server ''alcdata'' ''electrons'' 1 line_integrated_density_dataname
       = Some [5, -6, 7]
   \<and> evaluate example_server ''alcdata'' ''electrons'' 1 line_averaged_density_dataname
       = Some [5, -6, 7]
   \<and> evaluate example_server ''alcdata'' ''magnetics'' 1 plasma_current_dataname
       = Some [5, -6, 7]
   \<and> evaluate example_server ''alcdata'' ''magnetics'' 1 toroidal_magnetic_field_dataname
       = Some [5, -6, 7]"
proof -
  note res = example_server_results
  note acc = accessors_return_what_was_fetched [of module_globals example_server 1]
  note c1 = acc [THEN conjunct1, rule_format, OF res(1)]
  note c2 = acc [THEN conjunct2, THEN conjunct1, rule_format, OF res(2)]
  note c3 = acc [THEN conjunct2, THEN conjunct2, THEN conjunct1, rule_format, OF res(3)]
  note c4 = acc [THEN conjunct2, THEN conjunct2, THEN conjunct2, rule_format, OF res(4)]
  from c1 have "evaluate example_server ''alcdata'' ''electrons'' 1
      line_integrated_density_dataname = Some [5, -6, 7]"
    by auto
  moreover from c2 have "evaluate example_server ''alcdata'' ''electrons'' 1
      line_averaged_density_dataname = Some [5, -6, 7]"
    by auto
  moreover from c3 have "evaluate example_server ''alcdata'' ''magnetics'' 1
      plasma_current_dataname = Some [5, -6, 7]"
    by auto
  moreover from c4 have "\<exists>raw. evaluate example_server ''alcdata'' ''magnetics'' 1
      toroidal_magnetic_field_dataname = Some raw \<and> [-5, 6, -7] = map uminus raw"
    by auto
  then have "evaluate example_server ''alcdata'' ''magnetics'' 1
      toroidal_magnetic_field_dataname = Some [5, -6, 7]"
    by (simp add: example_server_answers toroidal_magnetic_field_dataname_def)
  ultimately show ?thesis
    using res by simp
qed

end
